theory Spec2Isabelle
  imports
    Complex_Main
    "HOL-Library.Multiset"
    "HOL-Library.Product_Lexorder"
    "HOL-Library.Char_ord"
    "HOL-Library.List_Lexorder"
begin

section \<open>Loyalty scoring, ranking and bonus allocation\<close>

text \<open>
  A shallow embedding of \<^verbatim>\<open>loyalty_calculator.py\<close>, of \<^verbatim>\<open>validate_data\<close> in
  \<^verbatim>\<open>utils.py\<close> and of the allocation step of \<^verbatim>\<open>bonus_allocation_page\<close> in
  \<^verbatim>\<open>app.py\<close>.

  Numbers. The source computes in IEEE doubles. Finite values are modelled as exact
  rationals, so rounding error is not part of the model; the non-finite results of a
  division by zero (which numpy returns instead of raising) are kept as values of their
  own. The sums of integer columns are 64-bit: they wrap around, as numpy's do. The
  concrete inputs below are chosen so that the doubles the source computes on them are
  the numbers shown.
\<close>

subsection \<open>Data\<close>

text \<open>The dictionary returned by \<^verbatim>\<open>calculate_player_loyalty_points\<close>.\<close>

record loyalty_calc =
  total_loyalty_points :: rat
  deposit_points :: rat
  withdrawal_points :: rat
  frequency_points :: rat
  games_points :: rat
  total_deposits :: rat
  total_withdrawals :: rat
  total_games_played :: int
  deposit_transactions :: int
  withdrawal_transactions :: int

text \<open>A row of the monthly result: \<^verbatim>\<open>{'player_id': player_id, **loyalty_calc}\<close>.\<close>

record loyalty_row = loyalty_calc +
  player_id :: string

text \<open>
  A row of a slot result:
  \<^verbatim>\<open>{'player_id': player_id, 'date': target_date, 'time_slot': slot, **loyalty_calc}\<close>.
\<close>

record slot_row = loyalty_row +
  date :: string
  time_slot :: string

text \<open>
  One activity record of the input table. The \<^verbatim>\<open>date\<close> column is a timestamp that the
  scorer only reads through \<^verbatim>\<open>strftime('%Y-%m-%d')\<close>; the field holds that rendering.
\<close>

record activity =
  player_id :: string
  date :: string
  time_slot :: string
  deposits :: rat
  withdrawals :: rat
  games_played :: int

text \<open>
  The input table of the scorer. \<^verbatim>\<open>pd.to_numeric\<close> leaves a column of whole numbers
  as \<^verbatim>\<open>int64\<close> and any other as \<^verbatim>\<open>float64\<close>, so the two amount columns carry their
  dtype; \<^verbatim>\<open>games_played\<close> is an \<^verbatim>\<open>int64\<close> column.
\<close>

datatype dtype = Int64 | Float64

record activity_frame =
  deposits_dtype :: dtype
  withdrawals_dtype :: dtype
  records :: "activity list"

text \<open>Boolean indexing \<^verbatim>\<open>data[mask]\<close>: the rows change, the dtypes stay.\<close>

definition select :: "(activity \<Rightarrow> bool) \<Rightarrow> activity_frame \<Rightarrow> activity_frame" where
  "select keep data = data\<lparr>records := filter keep (records data)\<rparr>"

text \<open>A signed 64-bit result: the integer modulo \<open>2\<^sup>6\<^sup>4\<close> in \<open>-2\<^sup>6\<^sup>3 \<dots> 2\<^sup>6\<^sup>3 - 1\<close>.\<close>

definition wrap64 :: "int \<Rightarrow> int" where
  "wrap64 n = (n + 2 ^ 63) mod 2 ^ 64 - 2 ^ 63"

text \<open>
  \<^verbatim>\<open>Series.sum()\<close> of a numeric column. The cells of an \<^verbatim>\<open>int64\<close> column are whole
  numbers (\<open>floor\<close> reads them) and their sum wraps around.
\<close>

definition column_sum :: "dtype \<Rightarrow> rat list \<Rightarrow> rat" where
  "column_sum dt cells =
     (case dt of
        Int64 \<Rightarrow> of_int (wrap64 (sum_list (map floor cells)))
      | Float64 \<Rightarrow> sum_list cells)"

text \<open>
  A pandas DataFrame: the column labels and the rows. A frame built from an empty list of
  dictionaries has no columns at all.
\<close>

record 'r frame =
  columns :: "string list"
  rows :: "'r list"

definition DataFrame :: "string list \<Rightarrow> 'r list \<Rightarrow> 'r frame" where
  "DataFrame keys results =
     \<lparr>columns = (if results = [] then [] else keys), rows = results\<rparr>"

datatype py_error = KeyError string

text \<open>\<^verbatim>\<open>Series.unique()\<close>: the distinct values in order of first appearance.\<close>

definition unique :: "'a list \<Rightarrow> 'a list" where
  "unique xs = rev (remdups (rev xs))"

text \<open>
  A stable descending sort: rows with equal keys keep their input order. This is the
  order of \<^verbatim>\<open>nlargest\<close> (\<^verbatim>\<open>keep='first'\<close>) and of a sort by several columns.
\<close>

definition sort_descending :: "('r \<Rightarrow> 'k::linorder) \<Rightarrow> 'r list \<Rightarrow> 'r list" where
  "sort_descending key xs = rev (sort_key key (rev xs))"

text \<open>
  \<^verbatim>\<open>sort_values(by, ascending=False)\<close> on one column sorts with numpy's default
  \<^verbatim>\<open>quicksort\<close>, which promises no order among rows with equal keys. The sort is a
  parameter \<open>numpy_sort\<close>; \<open>sorts_descending\<close> is all that is assumed of it: the result
  holds the same rows, in descending order of the key.
\<close>

definition sort_values ::
  "(('r \<Rightarrow> 'k) \<Rightarrow> 'r list \<Rightarrow> 'r list) \<Rightarrow> string \<Rightarrow> ('r \<Rightarrow> 'k::linorder) \<Rightarrow> 'r frame
     \<Rightarrow> py_error + 'r frame" where
  "sort_values numpy_sort by key df =
     (if by \<in> set (columns df)
      then Inr (df\<lparr>rows := numpy_sort key (rows df)\<rparr>)
      else Inl (KeyError by))"

definition sorts_descending ::
  "(('r \<Rightarrow> 'k::linorder) \<Rightarrow> 'r list \<Rightarrow> 'r list) \<Rightarrow> ('r \<Rightarrow> 'k) \<Rightarrow> bool" where
  "sorts_descending numpy_sort key \<longleftrightarrow>
     (\<forall>xs. mset (numpy_sort key xs) = mset xs
           \<and> sorted_wrt (\<lambda>a b. key b \<le> key a) (numpy_sort key xs))"

text \<open>
  A second sort: ascending and stable, then reversed, so that rows with equal keys come
  out in the reverse of their input order.
\<close>

definition sort_reversed :: "('r \<Rightarrow> 'k::linorder) \<Rightarrow> 'r list \<Rightarrow> 'r list" where
  "sort_reversed key xs = rev (sort_key key xs)"

subsection \<open>The scorer\<close>

text \<open>The weights set by \<^verbatim>\<open>LoyaltyCalculator.__init__\<close>.\<close>

record weights =
  deposit_amount :: rat
  withdrawal_amount :: rat
  deposit_frequency :: rat
  games_played :: rat

definition self_weights :: weights where
  "self_weights =
     \<lparr>deposit_amount = 0.01, withdrawal_amount = 0.005,
      deposit_frequency = 0.001, games_played = 0.2\<rparr>"

definition calculate_player_loyalty_points :: "activity_frame \<Rightarrow> loyalty_calc" where
  "calculate_player_loyalty_points player_data =
     (let total_deposits =
            column_sum (deposits_dtype player_data) (map deposits (records player_data));
          total_withdrawals =
            column_sum (withdrawals_dtype player_data) (map withdrawals (records player_data));
          total_games = wrap64 (sum_list (map activity.games_played (records player_data)));
          deposit_count = int (length (filter (\<lambda>r. deposits r > 0) (records player_data)));
          withdrawal_count =
            int (length (filter (\<lambda>r. withdrawals r > 0) (records player_data)));
          deposit_points = total_deposits * deposit_amount self_weights;
          withdrawal_points = total_withdrawals * withdrawal_amount self_weights;
          frequency_diff = max (deposit_count - withdrawal_count) 0;
          frequency_points = of_int frequency_diff * deposit_frequency self_weights;
          games_points = of_int total_games * weights.games_played self_weights;
          total_points = deposit_points + withdrawal_points + frequency_points + games_points
      in \<lparr>total_loyalty_points = total_points,
          deposit_points = deposit_points,
          withdrawal_points = withdrawal_points,
          frequency_points = frequency_points,
          games_points = games_points,
          total_deposits = total_deposits,
          total_withdrawals = total_withdrawals,
          total_games_played = total_games,
          deposit_transactions = deposit_count,
          withdrawal_transactions = withdrawal_count\<rparr>)"

definition monthly_keys :: "string list" where
  "monthly_keys =
     [''player_id'', ''total_loyalty_points'', ''deposit_points'', ''withdrawal_points'',
      ''frequency_points'', ''games_points'', ''total_deposits'', ''total_withdrawals'',
      ''total_games_played'', ''deposit_transactions'', ''withdrawal_transactions'']"

definition slot_keys :: "string list" where
  "slot_keys =
     [''player_id'', ''date'', ''time_slot'', ''total_loyalty_points'', ''deposit_points'',
      ''withdrawal_points'', ''frequency_points'', ''games_points'', ''total_deposits'',
      ''total_withdrawals'', ''total_games_played'', ''deposit_transactions'',
      ''withdrawal_transactions'']"

definition monthly_result :: "activity_frame \<Rightarrow> string \<Rightarrow> loyalty_row" where
  "monthly_result data pid =
     loyalty_calc.extend
       (calculate_player_loyalty_points (select (\<lambda>r. activity.player_id r = pid) data))
       (loyalty_row.fields pid)"

definition calculate_monthly_loyalty_points ::
  "((loyalty_row \<Rightarrow> rat) \<Rightarrow> loyalty_row list \<Rightarrow> loyalty_row list) \<Rightarrow> activity_frame
     \<Rightarrow> py_error + loyalty_row frame" where
  "calculate_monthly_loyalty_points numpy_sort data =
     (let results =
            map (monthly_result data) (unique (map activity.player_id (records data)));
          results_df = DataFrame monthly_keys results
      in sort_values numpy_sort ''total_loyalty_points'' total_loyalty_points results_df)"

definition slot_result :: "activity_frame \<Rightarrow> string \<Rightarrow> string \<Rightarrow> string \<Rightarrow> slot_row" where
  "slot_result slot_data target_date slot pid =
     loyalty_row.extend
       (loyalty_calc.extend
          (calculate_player_loyalty_points
             (select (\<lambda>r. activity.player_id r = pid) slot_data))
          (loyalty_row.fields pid))
       (slot_row.fields target_date slot)"

definition calculate_slot_loyalty_points ::
  "activity_frame \<Rightarrow> string \<Rightarrow> string \<Rightarrow> slot_row frame" where
  "calculate_slot_loyalty_points data target_date slot =
     (let slot_data =
            select (\<lambda>r. activity.date r = target_date \<and> activity.time_slot r = slot) data
      in if records slot_data = [] then \<lparr>columns = [], rows = []\<rparr>
         else DataFrame slot_keys
                (map (slot_result slot_data target_date slot)
                   (unique (map activity.player_id (records slot_data)))))"

subsection \<open>The ranker\<close>

record 'r ranked =
  entry :: 'r
  rank :: nat

text \<open>\<^verbatim>\<open>ranked_data['rank'] = range(1, len(ranked_data) + 1)\<close>\<close>

definition assign_rank :: "'r list \<Rightarrow> 'r ranked list" where
  "assign_rank xs = map (\<lambda>(r, k). \<lparr>entry = r, rank = k\<rparr>) (zip xs [1..<Suc (length xs)])"

text \<open>
  The numeric columns of a loyalty row by label. The rows are typed, so a label that is
  not one of theirs holds no values.
\<close>

definition numeric_column :: "string \<Rightarrow> (loyalty_row \<Rightarrow> rat) option" where
  "numeric_column label =
     (if label = ''total_loyalty_points'' then Some total_loyalty_points
      else if label = ''deposit_points'' then Some deposit_points
      else if label = ''withdrawal_points'' then Some withdrawal_points
      else if label = ''frequency_points'' then Some frequency_points
      else if label = ''games_points'' then Some games_points
      else if label = ''total_deposits'' then Some total_deposits
      else if label = ''total_withdrawals'' then Some total_withdrawals
      else if label = ''total_games_played'' then Some (\<lambda>r. of_int (total_games_played r))
      else if label = ''deposit_transactions'' then Some (\<lambda>r. of_int (deposit_transactions r))
      else if label = ''withdrawal_transactions''
        then Some (\<lambda>r. of_int (withdrawal_transactions r))
      else None)"

text \<open>
  \<^verbatim>\<open>sort_values(['total_loyalty_points', tie_breaker], ascending=[False, False])\<close>
  raises \<^verbatim>\<open>KeyError\<close> for the first label that is not a column; otherwise the rows are
  ordered by the pair of keys, both descending.
\<close>

definition rank_players_by_loyalty_points ::
  "loyalty_row frame \<Rightarrow> string \<Rightarrow> py_error + loyalty_row ranked frame" where
  "rank_players_by_loyalty_points loyalty_data tie_breaker =
     (if ''total_loyalty_points'' \<notin> set (columns loyalty_data)
        then Inl (KeyError ''total_loyalty_points'')
      else if tie_breaker \<notin> set (columns loyalty_data) then Inl (KeyError tie_breaker)
      else if tie_breaker = ''player_id''
        then Inr \<lparr>columns = columns loyalty_data @ [''rank''],
                  rows = assign_rank
                    (sort_descending (\<lambda>r. (total_loyalty_points r, loyalty_row.player_id r))
                       (rows loyalty_data))\<rparr>
      else (case numeric_column tie_breaker of
              None \<Rightarrow> Inl (KeyError tie_breaker)
            | Some tie \<Rightarrow>
                Inr \<lparr>columns = columns loyalty_data @ [''rank''],
                     rows = assign_rank
                       (sort_descending (\<lambda>r. (total_loyalty_points r, tie r))
                          (rows loyalty_data))\<rparr>))"

subsection \<open>The bonus allocator\<close>

text \<open>
  A double as the allocation step can produce it. numpy does not raise on a division by
  zero: \<^verbatim>\<open>0.0 / 0.0\<close> is \<^verbatim>\<open>nan\<close> and \<^verbatim>\<open>x / 0.0\<close> is an infinity of the sign of
  \<^verbatim>\<open>x\<close> (\<open>Inf True\<close> is the positive one).
\<close>

datatype pyfloat = Num rat | Inf bool | NaN

definition fdiv :: "rat \<Rightarrow> rat \<Rightarrow> pyfloat" where
  "fdiv a b = (if b = 0 then (if a = 0 then NaN else Inf (0 < a)) else Num (a / b))"

fun fmul :: "pyfloat \<Rightarrow> rat \<Rightarrow> pyfloat" where
  "fmul (Num a) p = Num (a * p)"
| "fmul (Inf s) p = (if p = 0 then NaN else Inf (s = (0 < p)))"
| "fmul NaN p = NaN"

fun fadd :: "pyfloat \<Rightarrow> pyfloat \<Rightarrow> pyfloat" where
  "fadd (Num a) (Num b) = Num (a + b)"
| "fadd (Num a) (Inf s) = Inf s"
| "fadd (Inf s) (Num b) = Inf s"
| "fadd (Inf s) (Inf t) = (if s = t then Inf s else NaN)"
| "fadd NaN y = NaN"
| "fadd x NaN = NaN"

text \<open>\<^verbatim>\<open>Series.sum()\<close>, which skips \<^verbatim>\<open>nan\<close> entries (\<^verbatim>\<open>skipna=True\<close>).\<close>

definition series_sum :: "pyfloat list \<Rightarrow> pyfloat" where
  "series_sum xs = foldl fadd (Num 0) (filter (\<lambda>x. x \<noteq> NaN) xs)"

text \<open>
  \<^verbatim>\<open>nlargest(n, column)\<close>: the first \<open>n\<close> rows in descending order of the column, the
  earlier row first among equals (\<^verbatim>\<open>keep='first'\<close>).
\<close>

definition nlargest :: "nat \<Rightarrow> string \<Rightarrow> ('r \<Rightarrow> 'k::linorder) \<Rightarrow> 'r frame \<Rightarrow> py_error + 'r list" where
  "nlargest n label key df =
     (if label \<in> set (columns df) then Inr (take n (sort_descending key (rows df)))
      else Inl (KeyError label))"

text \<open>
  \<^verbatim>\<open>series.loc[lo:hi] = v\<close> on the default index \<open>0, 1, ...\<close>: a label slice takes both
  ends, and labels beyond the last row select nothing.
\<close>

definition loc_assign :: "nat \<Rightarrow> nat \<Rightarrow> 'a \<Rightarrow> 'a list \<Rightarrow> 'a list" where
  "loc_assign lo hi v xs =
     map (\<lambda>(i, x). if lo \<le> i \<and> i \<le> hi then v else x) (zip [0..<length xs] xs)"

datatype allocation_method = Proportional | Equal | Tiered

text \<open>The \<^verbatim>\<open>bonus_amount\<close> column that each branch of the page assigns.\<close>

fun bonus_amount_column :: "allocation_method \<Rightarrow> rat \<Rightarrow> loyalty_row list \<Rightarrow> pyfloat list" where
  "bonus_amount_column Proportional bonus_pool top_50_players =
     (let total_points = sum_list (map total_loyalty_points top_50_players)
      in map (\<lambda>r. fmul (fdiv (total_loyalty_points r) total_points) bonus_pool)
           top_50_players)"
| "bonus_amount_column Equal bonus_pool top_50_players =
     replicate (length top_50_players) (Num (bonus_pool / 50))"
| "bonus_amount_column Tiered bonus_pool top_50_players =
     (let top_10_bonus = bonus_pool * 0.5 / 10;
          next_20_bonus = bonus_pool * 0.35 / 20;
          last_20_bonus = bonus_pool * 0.15 / 20
      in loc_assign 30 49 (Num last_20_bonus)
           (loc_assign 10 29 (Num next_20_bonus)
              (loc_assign 0 9 (Num top_10_bonus)
                 (replicate (length top_50_players) (Num 0)))))"

record allocation =
  player :: loyalty_row
  position :: nat
  bonus_amount :: pyfloat

text \<open>
  Lines 318 to 341 of \<^verbatim>\<open>bonus_allocation_page\<close>: the top 50 rows, their ranks and the
  bonus column (\<open>position\<close> is the page's \<^verbatim>\<open>rank\<close> column).
\<close>

definition bonus_allocation ::
  "loyalty_row frame \<Rightarrow> rat \<Rightarrow> allocation_method \<Rightarrow> py_error + allocation list" where
  "bonus_allocation results_df bonus_pool allocation_method =
     (case nlargest 50 ''total_loyalty_points'' total_loyalty_points results_df of
        Inl e \<Rightarrow> Inl e
      | Inr top_50_players \<Rightarrow>
          Inr (map (\<lambda>(r, b). \<lparr>player = entry r, position = rank r, bonus_amount = b\<rparr>)
                 (zip (assign_rank top_50_players)
                    (bonus_amount_column allocation_method bonus_pool top_50_players))))"

text \<open>The page's "Total Allocated" metric: \<^verbatim>\<open>top_50_players['bonus_amount'].sum()\<close>.\<close>

definition total_allocated :: "allocation list \<Rightarrow> pyfloat" where
  "total_allocated allocs = series_sum (map bonus_amount allocs)"

text \<open>
  \<open>within_tolerance s pool\<close>: the total \<open>s\<close> is a finite number within \<open>10\<^sup>-\<^sup>6\<close>, relative,
  of the pool.
\<close>

fun within_tolerance :: "pyfloat \<Rightarrow> rat \<Rightarrow> bool" where
  "within_tolerance (Num s) pool = (\<bar>s - pool\<bar> \<le> \<bar>pool\<bar> / 1000000)"
| "within_tolerance (Inf s) pool = False"
| "within_tolerance NaN pool = False"

subsection \<open>The validator\<close>

text \<open>
  The validator reads an uploaded table whose cells are not yet typed: a table is its
  length and its columns, each a label with its cells.
\<close>

datatype cell = Null | Text string | Number rat

record table =
  table_len :: nat
  table_columns :: "(string \<times> cell list) list"

text \<open>
  The pandas functions the per-record checks call, as parameters: whether
  \<^verbatim>\<open>pd.to_datetime\<close> accepts a column, how \<^verbatim>\<open>pd.to_numeric\<close> reads a text cell
  (\<open>None\<close> is the \<^verbatim>\<open>nan\<close> of \<^verbatim>\<open>errors='coerce'\<close>), and how a list of cells prints.
\<close>

record pandas =
  to_datetime_ok :: "cell list \<Rightarrow> bool"
  parse_number :: "string \<Rightarrow> rat option"
  str_list :: "cell list \<Rightarrow> string"

definition to_numeric :: "pandas \<Rightarrow> cell \<Rightarrow> rat option" where
  "to_numeric pd c = (case c of Null \<Rightarrow> None | Text s \<Rightarrow> parse_number pd s | Number r \<Rightarrow> Some r)"

fun join :: "string \<Rightarrow> string list \<Rightarrow> string" where
  "join sep [] = []"
| "join sep [x] = x"
| "join sep (x # y # ys) = x @ sep @ join sep (y # ys)"

definition required_columns :: "string list" where
  "required_columns =
     [''player_id'', ''date'', ''time_slot'', ''deposits'', ''withdrawals'', ''games_played'']"

definition missing_columns :: "table \<Rightarrow> string list" where
  "missing_columns data =
     filter (\<lambda>col. col \<notin> set (map fst (table_columns data))) required_columns"

text \<open>
  One round of the loop over the numeric columns. On cells of these three kinds
  \<^verbatim>\<open>pd.to_numeric(..., errors='coerce')\<close> does not raise, so the handler of the loop
  body is never entered.
\<close>

definition check_numeric :: "pandas \<Rightarrow> table \<Rightarrow> string list \<Rightarrow> string \<Rightarrow> string list" where
  "check_numeric pd data errors col =
     (case map_of (table_columns data) col of
        None \<Rightarrow> errors
      | Some cells \<Rightarrow>
          (let numeric_data = map (to_numeric pd) cells;
               errors1 = (if None \<in> set numeric_data
                          then errors @ [''Non-numeric values found in '' @ col] else errors)
           in if \<exists>v \<in> set numeric_data. case v of None \<Rightarrow> False | Some x \<Rightarrow> x < 0
              then errors1 @ [''Negative values found in '' @ col] else errors1))"

text \<open>The checks of \<^verbatim>\<open>validate_data\<close> that follow the test for an empty table.\<close>

definition record_checks :: "pandas \<Rightarrow> table \<Rightarrow> string list \<Rightarrow> string list" where
  "record_checks pd data errors =
     (let errors1 =
            (case map_of (table_columns data) ''player_id'' of
               None \<Rightarrow> errors
             | Some cells \<Rightarrow>
                 if Null \<in> set cells then errors @ [''Player ID contains null values'']
                 else errors);
          errors2 =
            (case map_of (table_columns data) ''date'' of
               None \<Rightarrow> errors1
             | Some cells \<Rightarrow>
                 if to_datetime_ok pd cells then errors1
                 else errors1 @ [''Invalid date format detected'']);
          errors3 =
            (case map_of (table_columns data) ''time_slot'' of
               None \<Rightarrow> errors2
             | Some cells \<Rightarrow>
                 (let invalid_slots =
                        unique (filter (\<lambda>c. c \<notin> set [Text ''S1'', Text ''S2'']) cells)
                  in if length invalid_slots > 0
                     then errors2 @ [''Invalid time_slot values found: '' @ str_list pd invalid_slots]
                     else errors2))
      in foldl (check_numeric pd data) errors3 [''deposits'', ''withdrawals'', ''games_played''])"

record validation =
  is_valid :: bool
  errors :: "string list"

definition validate_data :: "pandas \<Rightarrow> table \<Rightarrow> validation" where
  "validate_data pd data =
     (let errors0 =
            (if missing_columns data \<noteq> []
             then [''Missing required columns: '' @ join '', '' (missing_columns data)]
             else [])
      in if table_len data = 0
         then \<lparr>is_valid = False, errors = errors0 @ [''Dataset is empty'']\<rparr>
         else (let errors1 = record_checks pd data errors0
               in \<lparr>is_valid = (length errors1 = 0), errors = errors1\<rparr>))"

subsection \<open>Concrete inputs\<close>

text \<open>
  The record of the specification's example, a second player, and a player with no
  activity at all.
\<close>

definition p001 :: activity where
  "p001 = \<lparr>player_id = ''P001'', date = ''2023-10-02'', time_slot = ''S1'',
           deposits = 1000, withdrawals = 500, games_played = 5\<rparr>"

definition p002 :: activity where
  "p002 = \<lparr>player_id = ''P002'', date = ''2023-10-02'', time_slot = ''S2'',
           deposits = 2000, withdrawals = 0, games_played = 3\<rparr>"

definition p003 :: activity where
  "p003 = \<lparr>player_id = ''P003'', date = ''2023-10-16'', time_slot = ''S2'',
           deposits = 0, withdrawals = 0, games_played = 0\<rparr>"

text \<open>
  A table of records whose amounts are whole numbers, as in the sample of the upload
  page: both amount columns are \<^verbatim>\<open>int64\<close>.
\<close>

definition integer_table :: "activity list \<Rightarrow> activity_frame" where
  "integer_table rs = \<lparr>deposits_dtype = Int64, withdrawals_dtype = Int64, records = rs\<rparr>"

text \<open>
  One player with \<open>2\<^sup>6\<^sup>2\<close> games in each of the two slots of a day and no deposits
  or withdrawals.
\<close>

definition p006 :: "string \<Rightarrow> activity" where
  "p006 slot = \<lparr>player_id = ''P006'', date = ''2023-10-04'', time_slot = slot,
                deposits = 0, withdrawals = 0, games_played = 2 ^ 62\<rparr>"

definition marathon_table :: activity_frame where
  "marathon_table = integer_table [p006 ''S1'', p006 ''S2'']"

definition two_player_table :: activity_frame where
  "two_player_table = integer_table [p001, p002]"

text \<open>
  Two players whose total is the same 2 points, from 5 and from 10 games, and the frame of
  their two rows.
\<close>

definition p004 :: activity where
  "p004 = \<lparr>player_id = ''P004'', date = ''2023-10-03'', time_slot = ''S1'',
           deposits = 0, withdrawals = 200, games_played = 5\<rparr>"

definition p005 :: activity where
  "p005 = \<lparr>player_id = ''P005'', date = ''2023-10-03'', time_slot = ''S1'',
           deposits = 0, withdrawals = 0, games_played = 10\<rparr>"

definition tied_table :: activity_frame where
  "tied_table = integer_table [p004, p005]"

definition tied_results :: "loyalty_row frame" where
  "tied_results =
     DataFrame monthly_keys
       [monthly_result tied_table ''P004'', monthly_result tied_table ''P005'']"

text \<open>
  Monthly results of one scored player (the example's), of one player without activity,
  and of fifty players \<open>P001\<close> to \<open>P050\<close> named as \<^verbatim>\<open>generate_sample_data\<close> names
  them (\<^verbatim>\<open>f"P{player_num:03d}"\<close>), each with the example's activity.
\<close>

definition single_table :: activity_frame where
  "single_table = integer_table [p001]"

definition idle_table :: activity_frame where
  "idle_table = integer_table [p003]"

definition single_results :: "loyalty_row frame" where
  "single_results = DataFrame monthly_keys [monthly_result single_table ''P001'']"

definition idle_results :: "loyalty_row frame" where
  "idle_results = DataFrame monthly_keys [monthly_result idle_table ''P003'']"

definition sample_player_id :: "nat \<Rightarrow> string" where
  "sample_player_id player_num =
     CHR ''P'' # map (\<lambda>d. char_of (48 + d))
       [player_num div 100 mod 10, player_num div 10 mod 10, player_num mod 10]"

definition fifty_results :: "loyalty_row frame" where
  "fifty_results =
     DataFrame monthly_keys
       (map (\<lambda>n. monthly_result
                    (integer_table [p001\<lparr>player_id := sample_player_id n\<rparr>])
                    (sample_player_id n))
          [1..<51])"

text \<open>
  An instance of the pandas parameters for concrete tables: every date column is
  accepted, no text reads as a number, a list of cells prints as the empty string.
\<close>

definition plain_pandas :: pandas where
  "plain_pandas =
     \<lparr>to_datetime_ok = (\<lambda>cells. True), parse_number = (\<lambda>s. None), str_list = (\<lambda>cells. [])\<rparr>"

text \<open>An uploaded table with the six required columns and no rows.\<close>

definition empty_table :: table where
  "empty_table = \<lparr>table_len = 0, table_columns = map (\<lambda>col. (col, [])) required_columns\<rparr>"

section \<open>Properties\<close>

subsection \<open>Sorting and grouping\<close>

lemma set_unique: "set (unique xs) = set xs"
  by (simp add: unique_def)

lemma unique_eq_Nil: "unique xs = [] \<longleftrightarrow> xs = []"
  by (metis set_unique set_empty)

lemma set_sort_descending: "set (sort_descending key xs) = set xs"
  by (simp add: sort_descending_def)

lemma length_sort_descending: "length (sort_descending key xs) = length xs"
  by (simp add: sort_descending_def)

lemma mset_sort_descending: "mset (sort_descending key xs) = mset xs"
  by (simp add: sort_descending_def)

lemma sorted_sort_descending:
  "sorted_wrt (\<lambda>a b. key b \<le> key a) (sort_descending key xs)"
proof -
  have "sorted (map key (sort_key key (rev xs)))"
    by (rule sorted_sort_key)
  then have "sorted_wrt (\<lambda>a b. key a \<le> key b) (sort_key key (rev xs))"
    by (simp add: sorted_map)
  then show ?thesis
    by (simp add: sort_descending_def sorted_wrt_rev)
qed

subsection \<open>Sums of 64-bit columns\<close>

lemma wrap64_id: "- (2 ^ 63) \<le> n \<Longrightarrow> n < 2 ^ 63 \<Longrightarrow> wrap64 n = n"
  by (simp add: wrap64_def)

lemma floor_sum_le: "rat_of_int (sum_list (map floor xs)) \<le> sum_list xs"
proof (induction xs)
  case Nil
  then show ?case by simp
next
  case (Cons x xs)
  show ?case using Cons.IH by (auto intro!: add_mono)
qed

lemma column_sum_nonneg:
  assumes nonneg: "\<forall>x \<in> set cells. 0 \<le> x"
    and range: "dt = Float64 \<or> sum_list cells < 2 ^ 63"
  shows "0 \<le> column_sum dt cells"
proof (cases dt)
  case Float64
  have "0 \<le> sum_list cells"
    by (rule sum_list_nonneg) (use nonneg in auto)
  then show ?thesis using Float64 by (simp add: column_sum_def)
next
  case Int64
  have lo: "0 \<le> sum_list (map floor cells)"
    by (rule sum_list_nonneg) (use nonneg in auto)
  have "rat_of_int (sum_list (map floor cells)) < 2 ^ 63"
    using floor_sum_le [of cells] range Int64 by simp
  then have "rat_of_int (sum_list (map floor cells)) < rat_of_int (2 ^ 63)"
    by simp
  then have hi: "sum_list (map floor cells) < 2 ^ 63"
    by (simp only: of_int_less_iff)
  have "wrap64 (sum_list (map floor cells)) = sum_list (map floor cells)"
    using lo hi by (intro wrap64_id) simp_all
  then show ?thesis using lo Int64 by (simp add: column_sum_def)
qed

lemma sum_list_filter_le:
  fixes f :: "'a \<Rightarrow> 'b::linordered_idom"
  assumes "\<forall>x \<in> set xs. 0 \<le> f x"
  shows "sum_list (map f (filter P xs)) \<le> sum_list (map f xs)"
  using assms by (induction xs) (auto simp: add_increasing)

subsection \<open>The scorer\<close>

text \<open>
  C2. The breakdown of any record set of one player follows the fixed-weight formula:
  the totals are the column sums, the transaction counts count the records with a
  positive deposit (withdrawal), \<open>deposit_points = total_deposits * 0.01\<close>,
  \<open>withdrawal_points = total_withdrawals * 0.005\<close>, \<open>frequency_points\<close> is
  \<open>max (deposit_transactions - withdrawal_transactions) 0 * 0.001\<close>,
  \<open>games_points = total_games_played * 0.2\<close>, and \<open>total_loyalty_points\<close> is the sum of
  the four. The single record with deposits 1000, withdrawals 500 and 5 games yields
  10, 2.5, 0, 1 and 13.5, whatever the dtypes of the amount columns.
\<close>

theorem scorer_formula:
  fixes player_data :: activity_frame and b :: loyalty_calc
  defines "b \<equiv> calculate_player_loyalty_points player_data"
  shows "total_deposits b
           = column_sum (deposits_dtype player_data) (map deposits (records player_data))
       \<and> total_withdrawals b
           = column_sum (withdrawals_dtype player_data) (map withdrawals (records player_data))
       \<and> total_games_played b
           = wrap64 (sum_list (map activity.games_played (records player_data)))
       \<and> deposit_transactions b
           = int (length (filter (\<lambda>r. 0 < deposits r) (records player_data)))
       \<and> withdrawal_transactions b
           = int (length (filter (\<lambda>r. 0 < withdrawals r) (records player_data)))
       \<and> deposit_points b = total_deposits b * 0.01
       \<and> withdrawal_points b = total_withdrawals b * 0.005
       \<and> frequency_points b
           = of_int (max (deposit_transactions b - withdrawal_transactions b) 0) * 0.001
       \<and> games_points b = of_int (total_games_played b) * 0.2
       \<and> total_loyalty_points b
           = deposit_points b + withdrawal_points b + frequency_points b + games_points b
       \<and> calculate_player_loyalty_points
            \<lparr>deposits_dtype = dd, withdrawals_dtype = wd,
             records = [\<lparr>player_id = ''P001'', date = d, time_slot = s,
                         deposits = 1000, withdrawals = 500, games_played = 5\<rparr>]\<rparr>
           = \<lparr>total_loyalty_points = 13.5, deposit_points = 10, withdrawal_points = 2.5,
              frequency_points = 0, games_points = 1, total_deposits = 1000,
              total_withdrawals = 500, total_games_played = 5,
              deposit_transactions = 1, withdrawal_transactions = 1\<rparr>"
proof -
  have "column_sum dt [1000] = 1000" and "column_sum dt [500] = 500" for dt
    by (cases dt; simp add: column_sum_def wrap64_def)+
  then show ?thesis
    unfolding b_def
    by (simp add: calculate_player_loyalty_points_def self_weights_def Let_def wrap64_def)
qed

text \<open>
  The totals are the plain sums of the columns as long as these stay within 64 bits.
\<close>

lemma total_games_played_exact:
  assumes "\<forall>r \<in> set (records player_data). 0 \<le> activity.games_played r"
    and "sum_list (map activity.games_played (records player_data)) < 2 ^ 63"
  shows "total_games_played (calculate_player_loyalty_points player_data)
           = sum_list (map activity.games_played (records player_data))"
proof -
  have "0 \<le> sum_list (map activity.games_played (records player_data))"
    by (rule sum_list_nonneg) (use assms(1) in auto)
  then have "wrap64 (sum_list (map activity.games_played (records player_data)))
               = sum_list (map activity.games_played (records player_data))"
    using assms(2) by (intro wrap64_id) simp_all
  then show ?thesis
    by (simp add: calculate_player_loyalty_points_def Let_def)
qed

lemma sorts_descending_stable: "sorts_descending sort_descending key"
  by (simp add: sorts_descending_def mset_sort_descending sorted_sort_descending)

lemma sorts_descending_reversed: "sorts_descending sort_reversed key"
proof -
  have "sorted_wrt (\<lambda>a b. key b \<le> key a) (rev (sort_key key xs))" for xs
  proof -
    have "sorted (map key (sort_key key xs))"
      by (rule sorted_sort_key)
    then have "sorted_wrt (\<lambda>a b. key a \<le> key b) (sort_key key xs)"
      by (simp add: sorted_map)
    then show ?thesis
      by (simp add: sorted_wrt_rev)
  qed
  then show ?thesis
    by (simp add: sorts_descending_def sort_reversed_def)
qed

lemma monthly_returns:
  assumes "records data \<noteq> []"
  shows "calculate_monthly_loyalty_points numpy_sort data =
           Inr \<lparr>columns = monthly_keys,
                rows = numpy_sort total_loyalty_points
                         (map (monthly_result data)
                            (unique (map activity.player_id (records data))))\<rparr>"
proof -
  have "map (monthly_result data) (unique (map activity.player_id (records data))) \<noteq> []"
    using assms by (simp add: unique_eq_Nil)
  then show ?thesis
    by (simp add: calculate_monthly_loyalty_points_def DataFrame_def sort_values_def
        monthly_keys_def)
qed

lemma monthly_empty:
  assumes "records data = []"
  shows "calculate_monthly_loyalty_points numpy_sort data
           = Inl (KeyError ''total_loyalty_points'')"
  using assms
  by (simp add: calculate_monthly_loyalty_points_def DataFrame_def sort_values_def unique_def)

text \<open>
  A slot with no matching record is answered by the guard of
  \<^verbatim>\<open>calculate_slot_loyalty_points\<close>: the result is the empty frame.
\<close>

lemma slot_no_match_empty:
  assumes "\<not> (\<exists>r \<in> set (records data).
                 activity.date r = target_date \<and> activity.time_slot r = slot)"
  shows "calculate_slot_loyalty_points data target_date slot = \<lparr>columns = [], rows = []\<rparr>"
proof -
  have "filter (\<lambda>r. activity.date r = target_date \<and> activity.time_slot r = slot)
          (records data) = []"
    using assms by (simp add: filter_empty_conv)
  then show ?thesis
    by (simp add: calculate_slot_loyalty_points_def select_def)
qed

text \<open>
  C5. Scoring an empty subset should return an empty result and never raise. The slot
  scorer does (\<open>slot_no_match_empty\<close>); the monthly scorer does not: on the empty record
  set it builds a frame without columns and the sort that follows raises
  \<^verbatim>\<open>KeyError('total_loyalty_points')\<close>, whatever the sort and the dtypes of the table.
\<close>

theorem monthly_empty_raises:
  "calculate_monthly_loyalty_points numpy_sort
     \<lparr>deposits_dtype = dd, withdrawals_dtype = wd, records = []\<rparr>
     = Inl (KeyError ''total_loyalty_points'')
   \<and> calculate_slot_loyalty_points
       \<lparr>deposits_dtype = dd, withdrawals_dtype = wd, records = []\<rparr> ''2023-10-02'' ''S1''
     = \<lparr>columns = [], rows = []\<rparr>"
  by (simp add: monthly_empty calculate_slot_loyalty_points_def select_def)



lemma calc_nonneg:
  assumes nonneg: "\<forall>r \<in> set (records player_data).
             0 \<le> deposits r \<and> 0 \<le> withdrawals r \<and> 0 \<le> activity.games_played r"
    and games: "sum_list (map activity.games_played (records player_data)) < 2 ^ 63"
    and deps: "deposits_dtype player_data = Float64
               \<or> sum_list (map deposits (records player_data)) < 2 ^ 63"
    and wds: "withdrawals_dtype player_data = Float64
              \<or> sum_list (map withdrawals (records player_data)) < 2 ^ 63"
  shows "0 \<le> total_loyalty_points (calculate_player_loyalty_points player_data)"
proof -
  have d: "0 \<le> column_sum (deposits_dtype player_data) (map deposits (records player_data))"
    by (rule column_sum_nonneg) (use nonneg deps in auto)
  have w: "0 \<le> column_sum (withdrawals_dtype player_data)
                  (map withdrawals (records player_data))"
    by (rule column_sum_nonneg) (use nonneg wds in auto)
  have "0 \<le> sum_list (map activity.games_played (records player_data))"
    by (rule sum_list_nonneg) (use nonneg in auto)
  then have g: "0 \<le> wrap64 (sum_list (map activity.games_played (records player_data)))"
    using games by (simp add: wrap64_id)
  show ?thesis
    using d w g
    by (simp add: calculate_player_loyalty_points_def self_weights_def Let_def)
qed

text \<open>The part of a table that a mask keeps is bounded as the table is.\<close>

lemma select_nonneg:
  assumes nonneg: "\<forall>r \<in> set (records data).
             0 \<le> deposits r \<and> 0 \<le> withdrawals r \<and> 0 \<le> activity.games_played r"
    and games: "sum_list (map activity.games_played (records data)) < 2 ^ 63"
    and deps: "deposits_dtype data = Float64
               \<or> sum_list (map deposits (records data)) < 2 ^ 63"
    and wds: "withdrawals_dtype data = Float64
              \<or> sum_list (map withdrawals (records data)) < 2 ^ 63"
  shows "0 \<le> total_loyalty_points (calculate_player_loyalty_points (select keep data))"
proof (rule calc_nonneg)
  show "\<forall>r \<in> set (records (select keep data)).
          0 \<le> deposits r \<and> 0 \<le> withdrawals r \<and> 0 \<le> activity.games_played r"
    using nonneg by (simp add: select_def)
next
  have "sum_list (map activity.games_played (filter keep (records data)))
          \<le> sum_list (map activity.games_played (records data))"
    by (rule sum_list_filter_le) (use nonneg in auto)
  then show "sum_list (map activity.games_played (records (select keep data))) < 2 ^ 63"
    using games by (simp add: select_def)
next
  have "sum_list (map deposits (filter keep (records data)))
          \<le> sum_list (map deposits (records data))"
    by (rule sum_list_filter_le) (use nonneg in auto)
  then show "deposits_dtype (select keep data) = Float64
             \<or> sum_list (map deposits (records (select keep data))) < 2 ^ 63"
    using deps by (auto simp: select_def)
next
  have "sum_list (map withdrawals (filter keep (records data)))
          \<le> sum_list (map withdrawals (records data))"
    by (rule sum_list_filter_le) (use nonneg in auto)
  then show "withdrawals_dtype (select keep data) = Float64
             \<or> sum_list (map withdrawals (records (select keep data))) < 2 ^ 63"
    using wds by (auto simp: select_def)
qed

lemma monthly_result_calc:
  "total_loyalty_points (monthly_result data pid)
     = total_loyalty_points
         (calculate_player_loyalty_points (select (\<lambda>r. activity.player_id r = pid) data))"
  by (simp add: monthly_result_def loyalty_calc.defs)

lemma slot_result_calc:
  "total_loyalty_points (slot_result data d s pid)
     = total_loyalty_points
         (calculate_player_loyalty_points (select (\<lambda>r. activity.player_id r = pid) data))"
  by (simp add: slot_result_def loyalty_calc.defs loyalty_row.defs)

lemma select_select:
  "select keep (select keep' data) = select (\<lambda>r. keep r \<and> keep' r) data"
  by (simp add: select_def conj_commute)

lemma slot_rows:
  "set (rows (calculate_slot_loyalty_points data d s))
     \<subseteq> slot_result
         (select (\<lambda>r. activity.date r = d \<and> activity.time_slot r = s) data) d s ` UNIV"
  by (auto simp: calculate_slot_loyalty_points_def DataFrame_def Let_def)

text \<open>
  C9 as stated: non-negative deposits, withdrawals and games played give non-negative
  total loyalty points. The sum of the \<^verbatim>\<open>int64\<close> column \<^verbatim>\<open>games_played\<close> wraps
  around: two records of \<open>2\<^sup>6\<^sup>2\<close> games each total \<open>-2\<^sup>6\<^sup>3\<close> games, and the
  player's total loyalty points are negative.
\<close>

theorem loyalty_points_nonneg_counterexample:
  "list_all (\<lambda>r. 0 \<le> deposits r \<and> 0 \<le> withdrawals r \<and> 0 \<le> activity.games_played r)
     (records marathon_table)
   \<and> total_games_played (calculate_player_loyalty_points marathon_table) = - (2 ^ 63)
   \<and> total_loyalty_points (calculate_player_loyalty_points marathon_table) < 0
   \<and> calculate_monthly_loyalty_points sort_descending marathon_table
       = Inr \<lparr>columns = monthly_keys, rows = [monthly_result marathon_table ''P006'']\<rparr>
   \<and> total_loyalty_points (monthly_result marathon_table ''P006'') < 0"
  by (simp add: marathon_table_def integer_table_def p006_def
      calculate_monthly_loyalty_points_def sort_values_def DataFrame_def monthly_keys_def
      unique_def sort_descending_def monthly_result_def calculate_player_loyalty_points_def
      select_def column_sum_def wrap64_def self_weights_def
      loyalty_calc.defs loyalty_row.defs)

text \<open>
  C9, amended. When deposits, withdrawals and games played are non-negative in every
  record and the totals of the integer columns stay below \<open>2\<^sup>6\<^sup>3\<close> (the games played,
  and the deposits and withdrawals where their column is \<^verbatim>\<open>int64\<close>), the total loyalty
  points are non-negative: for the breakdown of the set, for every row the monthly
  scorer returns (and it returns on every non-empty set), and for every row of a slot
  result.
\<close>

theorem loyalty_points_nonneg:
  assumes nonneg: "\<forall>r \<in> set (records data).
             0 \<le> deposits r \<and> 0 \<le> withdrawals r \<and> 0 \<le> activity.games_played r"
    and games: "sum_list (map activity.games_played (records data)) < 2 ^ 63"
    and deps: "deposits_dtype data = Float64
               \<or> sum_list (map deposits (records data)) < 2 ^ 63"
    and wds: "withdrawals_dtype data = Float64
              \<or> sum_list (map withdrawals (records data)) < 2 ^ 63"
    and sort: "sorts_descending numpy_sort total_loyalty_points"
  shows "0 \<le> total_loyalty_points (calculate_player_loyalty_points data)
       \<and> (\<forall>df. calculate_monthly_loyalty_points numpy_sort data = Inr df
              \<longrightarrow> (\<forall>b \<in> set (rows df). 0 \<le> total_loyalty_points b))
       \<and> (records data \<noteq> []
              \<longrightarrow> (\<exists>df. calculate_monthly_loyalty_points numpy_sort data = Inr df))
       \<and> (\<forall>b \<in> set (rows (calculate_slot_loyalty_points data d s)).
              0 \<le> total_loyalty_points b)"
proof (intro conjI)
  show "0 \<le> total_loyalty_points (calculate_player_loyalty_points data)"
    using nonneg games deps wds by (rule calc_nonneg)
next
  have sub: "0 \<le> total_loyalty_points (monthly_result data pid)" for pid
    unfolding monthly_result_calc using nonneg games deps wds by (rule select_nonneg)
  show "\<forall>df. calculate_monthly_loyalty_points numpy_sort data = Inr df
          \<longrightarrow> (\<forall>b \<in> set (rows df). 0 \<le> total_loyalty_points b)"
  proof (cases "records data = []")
    case True
    then show ?thesis by (simp add: monthly_empty)
  next
    case False
    have "set (numpy_sort total_loyalty_points xs) = set xs" for xs
      using sort by (metis sorts_descending_def set_mset_mset)
    then show ?thesis
      using sub False by (auto simp: monthly_returns)
  qed
next
  show "records data \<noteq> []
          \<longrightarrow> (\<exists>df. calculate_monthly_loyalty_points numpy_sort data = Inr df)"
    by (simp add: monthly_returns)
next
  have "0 \<le> total_loyalty_points
               (slot_result
                  (select (\<lambda>r. activity.date r = d \<and> activity.time_slot r = s) data) d s pid)"
    for pid
    unfolding slot_result_calc select_select using nonneg games deps wds
    by (rule select_nonneg)
  then show "\<forall>b \<in> set (rows (calculate_slot_loyalty_points data d s)).
              0 \<le> total_loyalty_points b"
    using slot_rows [of data d s] by auto
qed

theorem loyalty_points_nonneg_witness:
  "list_all (\<lambda>r. 0 \<le> deposits r \<and> 0 \<le> withdrawals r \<and> 0 \<le> activity.games_played r)
     (records two_player_table)
   \<and> sum_list (map activity.games_played (records two_player_table)) = 8
   \<and> sum_list (map deposits (records two_player_table)) = 3000
   \<and> sum_list (map withdrawals (records two_player_table)) = 500
   \<and> sorts_descending sort_reversed (total_loyalty_points :: loyalty_row \<Rightarrow> rat)
   \<and> 0 \<le> total_loyalty_points (calculate_player_loyalty_points two_player_table)
   \<and> (\<exists>df. calculate_monthly_loyalty_points sort_reversed two_player_table = Inr df
          \<and> list_all (\<lambda>b. 0 \<le> total_loyalty_points b) (rows df))"
proof -
  have h: "\<forall>r \<in> set (records two_player_table).
             0 \<le> deposits r \<and> 0 \<le> withdrawals r \<and> 0 \<le> activity.games_played r"
    by (simp add: two_player_table_def integer_table_def p001_def p002_def)
  have g: "sum_list (map activity.games_played (records two_player_table)) = 8"
    and dd: "sum_list (map deposits (records two_player_table)) = 3000"
    and ww: "sum_list (map withdrawals (records two_player_table)) = 500"
    by (simp_all add: two_player_table_def integer_table_def p001_def p002_def)
  have hs: "sorts_descending sort_reversed (total_loyalty_points :: loyalty_row \<Rightarrow> rat)"
    by (rule sorts_descending_reversed)
  have n: "records two_player_table \<noteq> []"
    by (simp add: two_player_table_def integer_table_def)
  have "sum_list (map activity.games_played (records two_player_table)) < 2 ^ 63"
    and "deposits_dtype two_player_table = Float64
         \<or> sum_list (map deposits (records two_player_table)) < 2 ^ 63"
    and "withdrawals_dtype two_player_table = Float64
         \<or> sum_list (map withdrawals (records two_player_table)) < 2 ^ 63"
    unfolding g dd ww by simp_all
  from loyalty_points_nonneg [OF h this hs, of "''2023-10-02''" "''S1''"]
  show ?thesis
    using h g dd ww hs n by (auto simp: list_all_iff)
qed

subsection \<open>The validator\<close>

text \<open>
  C6 as stated: an empty batch gives exactly one error, \<open>dataset is empty\<close>. On the empty
  table without columns the validator reports two errors, the missing columns first, and
  its message is spelled \<open>Dataset is empty\<close>.
\<close>

theorem validate_empty_counterexample:
  "validate_data plain_pandas \<lparr>table_len = 0, table_columns = []\<rparr>
     = \<lparr>is_valid = False,
        errors =
          [''Missing required columns: player_id, date, time_slot, deposits, withdrawals, games_played'',
           ''Dataset is empty'']\<rparr>
   \<and> validate_data plain_pandas \<lparr>table_len = 0, table_columns = []\<rparr>
     \<noteq> \<lparr>is_valid = False, errors = [''dataset is empty'']\<rparr>"
  by (simp add: validate_data_def missing_columns_def required_columns_def)

text \<open>
  C6, amended. For every empty batch \<open>validate_data\<close> returns \<open>is_valid = False\<close>; its
  errors end with \<open>Dataset is empty\<close>, preceded only by the missing-columns error when a
  required column is absent; none of the per-record checks runs (the result does not
  depend on the pandas parameters).
\<close>

theorem validate_empty:
  assumes "table_len data = 0"
  shows "validate_data pd data
           = \<lparr>is_valid = False,
              errors =
                (if missing_columns data = [] then []
                 else [''Missing required columns: '' @ join '', '' (missing_columns data)])
                @ [''Dataset is empty'']\<rparr>"
  using assms by (simp add: validate_data_def)

theorem validate_empty_witness:
  "table_len empty_table = 0
   \<and> validate_data plain_pandas empty_table
       = \<lparr>is_valid = False, errors = [''Dataset is empty'']\<rparr>"
  using validate_empty [of empty_table plain_pandas]
  by (simp add: empty_table_def missing_columns_def required_columns_def)

subsection \<open>The ranker\<close>

lemma length_assign_rank: "length (assign_rank xs) = length xs"
  by (simp add: assign_rank_def del: upt_Suc)

lemma nth_assign_rank:
  assumes "i < length xs"
  shows "assign_rank xs ! i = \<lparr>entry = xs ! i, rank = Suc i\<rparr>"
proof -
  have "[1..<Suc (length xs)] ! i = Suc i"
    using assms by (simp del: upt_Suc)
  moreover have "i < length (zip xs [1..<Suc (length xs)])"
    using assms by (simp del: upt_Suc)
  ultimately show ?thesis
    using assms by (simp add: assign_rank_def del: upt_Suc)
qed

lemma map_rank_assign_rank: "map rank (assign_rank xs) = [1..<Suc (length xs)]"
proof (rule nth_equalityI)
  show "length (map rank (assign_rank xs)) = length [1..<Suc (length xs)]"
    by (simp add: length_assign_rank del: upt_Suc)
next
  fix i assume "i < length (map rank (assign_rank xs))"
  then have i: "i < length xs"
    by (simp add: length_assign_rank)
  then have "[1..<Suc (length xs)] ! i = Suc i"
    by (simp del: upt_Suc)
  then show "map rank (assign_rank xs) ! i = [1..<Suc (length xs)] ! i"
    using i by (simp add: length_assign_rank nth_assign_rank del: upt_Suc)
qed

lemma map_entry_assign_rank: "map entry (assign_rank xs) = xs"
  by (rule nth_equalityI) (simp_all add: length_assign_rank nth_assign_rank)

lemma in_assign_rank:
  assumes "a \<in> set (assign_rank xs)"
  shows "\<exists>i < length xs. a = \<lparr>entry = xs ! i, rank = Suc i\<rparr>"
proof -
  obtain i where "i < length (assign_rank xs)" and "assign_rank xs ! i = a"
    using assms unfolding in_set_conv_nth by blast
  then show ?thesis
    by (auto simp: length_assign_rank nth_assign_rank)
qed


lemma numeric_column_known:
  assumes "tie_breaker \<in> set monthly_keys" and "tie_breaker \<noteq> ''player_id''"
  shows "\<exists>tie. numeric_column tie_breaker = Some tie"
  using assms unfolding monthly_keys_def numeric_column_def by auto

lemma tlp_in_monthly_keys: "''total_loyalty_points'' \<in> set monthly_keys"
  by (simp add: monthly_keys_def)

lemma rank_players_returns:
  assumes "columns df = monthly_keys" and "tie_breaker \<in> set monthly_keys"
  shows "\<exists>sorted_rows.
           rank_players_by_loyalty_points df tie_breaker
             = Inr \<lparr>columns = monthly_keys @ [''rank''], rows = assign_rank sorted_rows\<rparr>
           \<and> mset sorted_rows = mset (rows df)"
proof (cases "tie_breaker = ''player_id''")
  case True
  let ?xs = "sort_descending (\<lambda>r. (total_loyalty_points r, loyalty_row.player_id r)) (rows df)"
  have "rank_players_by_loyalty_points df tie_breaker
          = Inr \<lparr>columns = monthly_keys @ [''rank''], rows = assign_rank ?xs\<rparr>"
    using assms True tlp_in_monthly_keys by (simp add: rank_players_by_loyalty_points_def)
  moreover have "mset ?xs = mset (rows df)"
    by (rule mset_sort_descending)
  ultimately show ?thesis by blast
next
  case False
  obtain tie where tie: "numeric_column tie_breaker = Some tie"
    using numeric_column_known [OF assms(2) False] by blast
  let ?xs = "sort_descending (\<lambda>r. (total_loyalty_points r, tie r)) (rows df)"
  have "rank_players_by_loyalty_points df tie_breaker
          = Inr \<lparr>columns = monthly_keys @ [''rank''], rows = assign_rank ?xs\<rparr>"
    using assms False tie tlp_in_monthly_keys by (simp add: rank_players_by_loyalty_points_def)
  moreover have "mset ?xs = mset (rows df)"
    by (rule mset_sort_descending)
  ultimately show ?thesis by blast
qed

text \<open>
  A frame without columns, as the slot scorer returns for a slot without records, has
  nothing to sort by.
\<close>

lemma rank_without_columns:
  "rank_players_by_loyalty_points \<lparr>columns = [], rows = []\<rparr> tie_breaker
     = Inl (KeyError ''total_loyalty_points'')"
  by (simp add: rank_players_by_loyalty_points_def)

text \<open>
  C7. On every frame of scored players (the columns of a monthly result, any number of
  rows) and for every tie-breaker column, \<open>rank_players_by_loyalty_points\<close> returns the
  same players with the ranks \<open>1, 2, ..., N\<close> in this order: strictly increasing from 1,
  without gaps or duplicates, whatever ties the scores have.
\<close>

theorem ranks_are_one_to_n:
  assumes "columns df = monthly_keys" and "tie_breaker \<in> set monthly_keys"
  shows "\<exists>ranked. rank_players_by_loyalty_points df tie_breaker = Inr ranked
           \<and> map rank (rows ranked) = [1..<Suc (length (rows df))]
           \<and> mset (map entry (rows ranked)) = mset (rows df)"
proof -
  obtain sorted_rows where
    r: "rank_players_by_loyalty_points df tie_breaker
          = Inr \<lparr>columns = monthly_keys @ [''rank''], rows = assign_rank sorted_rows\<rparr>"
    and m: "mset sorted_rows = mset (rows df)"
    using rank_players_returns [OF assms] by blast
  have len: "length sorted_rows = length (rows df)"
    using m by (rule mset_eq_length)
  have "map rank (assign_rank sorted_rows) = [1..<Suc (length (rows df))]"
    using len by (simp only: map_rank_assign_rank)
  moreover have "mset (map entry (assign_rank sorted_rows)) = mset (rows df)"
    using m by (simp only: map_entry_assign_rank)
  ultimately show ?thesis
    using r by (simp del: upt_Suc mset_map)
qed

theorem ranks_are_one_to_n_witness:
  "columns tied_results = monthly_keys \<and> ''player_id'' \<in> set monthly_keys
   \<and> (\<exists>ranked. rank_players_by_loyalty_points tied_results ''player_id'' = Inr ranked
          \<and> map rank (rows ranked) = [1, 2])"
proof -
  have h: "columns tied_results = monthly_keys"
    by (simp add: tied_results_def DataFrame_def)
  have k: "''player_id'' \<in> set monthly_keys"
    by (simp add: monthly_keys_def)
  have n: "[1..<Suc (length (rows tied_results))] = [1, 2]"
    by (simp add: tied_results_def DataFrame_def)
  show ?thesis
    using h k ranks_are_one_to_n [OF h k] unfolding n by auto
qed

lemma rank_default_rows:
  assumes "columns df = monthly_keys"
  shows "rank_players_by_loyalty_points df ''total_games_played''
           = Inr \<lparr>columns = monthly_keys @ [''rank''],
                  rows = assign_rank
                    (sort_descending
                       (\<lambda>r. (total_loyalty_points r, rat_of_int (total_games_played r)))
                       (rows df))\<rparr>"
  using assms
  by (simp add: rank_players_by_loyalty_points_def numeric_column_def monthly_keys_def)

lemma sorted_desc_positions:
  fixes key :: "'r \<Rightarrow> 'k::linorder"
  assumes s: "sorted_wrt (\<lambda>a b. key b \<le> key a) xs"
    and i: "i < length xs" and j: "j < length xs"
    and lt: "key (xs ! j) < key (xs ! i)"
  shows "i < j"
proof (rule ccontr)
  assume "\<not> i < j"
  then consider "j = i" | "j < i" by linarith
  then show False
  proof cases
    case 1
    then show ?thesis using lt by simp
  next
    case 2
    then have "key (xs ! i) \<le> key (xs ! j)"
      using s i by (simp add: sorted_wrt_iff_nth_less)
    then show ?thesis using lt by simp
  qed
qed


text \<open>
  C8. With the default tie-breaker \<open>total_games_played\<close>, of two ranked players with the
  same \<open>total_loyalty_points\<close> the one with more games played has the smaller rank.
\<close>

theorem tie_broken_by_games_played:
  assumes "columns df = monthly_keys"
  shows "\<exists>ranked. rank_players_by_loyalty_points df ''total_games_played'' = Inr ranked
           \<and> mset (map entry (rows ranked)) = mset (rows df)
           \<and> (\<forall>a \<in> set (rows ranked). \<forall>b \<in> set (rows ranked).
                 total_loyalty_points (entry a) = total_loyalty_points (entry b)
                 \<and> total_games_played (entry b) < total_games_played (entry a)
                 \<longrightarrow> rank a < rank b)"
proof -
  define key :: "loyalty_row \<Rightarrow> rat \<times> rat"
    where "key = (\<lambda>r. (total_loyalty_points r, rat_of_int (total_games_played r)))"
  define xs where "xs = sort_descending key (rows df)"
  have r: "rank_players_by_loyalty_points df ''total_games_played''
             = Inr \<lparr>columns = monthly_keys @ [''rank''], rows = assign_rank xs\<rparr>"
    using rank_default_rows [OF assms] by (simp add: xs_def key_def)
  have sorted: "sorted_wrt (\<lambda>a b. key b \<le> key a) xs"
    unfolding xs_def by (rule sorted_sort_descending)
  have order: "rank a < rank b"
    if a: "a \<in> set (assign_rank xs)" and b: "b \<in> set (assign_rank xs)"
      and eq: "total_loyalty_points (entry a) = total_loyalty_points (entry b)"
      and more: "total_games_played (entry b) < total_games_played (entry a)"
    for a b
  proof -
    obtain i where i: "i < length xs" "a = \<lparr>entry = xs ! i, rank = Suc i\<rparr>"
      using in_assign_rank [OF a] by blast
    obtain j where j: "j < length xs" "b = \<lparr>entry = xs ! j, rank = Suc j\<rparr>"
      using in_assign_rank [OF b] by blast
    have "key (xs ! j) < key (xs ! i)"
      using eq more i(2) j(2) by (simp add: key_def less_prod_def)
    then have "i < j"
      using sorted i(1) j(1) by (rule sorted_desc_positions [rotated 3])
    then show ?thesis
      using i(2) j(2) by simp
  qed
  have perm: "mset (map entry (assign_rank xs)) = mset (rows df)"
    by (simp only: map_entry_assign_rank xs_def mset_sort_descending)
  show ?thesis
    using r order perm by (auto simp del: mset_map)
qed

theorem tie_broken_by_games_played_witness:
  "columns tied_results = monthly_keys
   \<and> (\<exists>ranked. rank_players_by_loyalty_points tied_results ''total_games_played'' = Inr ranked
          \<and> map (\<lambda>a. (loyalty_row.player_id (entry a), rank a)) (rows ranked)
              = [(''P005'', 1), (''P004'', 2)])"
proof -
  have h: "columns tied_results = monthly_keys"
    by (simp add: tied_results_def DataFrame_def)
  have e: "rank_players_by_loyalty_points tied_results ''total_games_played''
             = Inr \<lparr>columns = monthly_keys @ [''rank''],
                    rows = [\<lparr>entry = monthly_result tied_table ''P005'', rank = 1\<rparr>,
                            \<lparr>entry = monthly_result tied_table ''P004'', rank = 2\<rparr>]\<rparr>"
    by (simp add: rank_players_by_loyalty_points_def numeric_column_def tied_results_def
        DataFrame_def monthly_keys_def sort_descending_def assign_rank_def monthly_result_def
        calculate_player_loyalty_points_def self_weights_def p004_def p005_def
        tied_table_def integer_table_def select_def column_sum_def wrap64_def
        loyalty_calc.defs loyalty_row.defs less_eq_prod_def less_prod_def)
  show ?thesis
    using h e tie_broken_by_games_played [OF h]
    by (simp add: monthly_result_def loyalty_calc.defs loyalty_row.defs)
qed

subsection \<open>The bonus allocator\<close>

lemma nlargest_returns:
  assumes "''total_loyalty_points'' \<in> set (columns df)"
  shows "nlargest 50 ''total_loyalty_points'' total_loyalty_points df
           = Inr (take 50 (sort_descending total_loyalty_points (rows df)))"
  using assms by (simp add: nlargest_def)

lemma length_loc_assign: "length (loc_assign lo hi v xs) = length xs"
  by (simp add: loc_assign_def)

lemma nth_loc_assign:
  "i < length xs \<Longrightarrow> loc_assign lo hi v xs ! i = (if lo \<le> i \<and> i \<le> hi then v else xs ! i)"
  by (simp add: loc_assign_def)

lemma length_bonus_amount_column:
  "length (bonus_amount_column m pool top_50) = length top_50"
  by (cases m) (simp_all add: length_loc_assign Let_def)

lemma bonus_allocation_returns:
  assumes "''total_loyalty_points'' \<in> set (columns df)"
  shows "\<exists>allocs. bonus_allocation df pool m = Inr allocs
           \<and> length allocs = min 50 (length (rows df))
           \<and> map bonus_amount allocs
               = bonus_amount_column m pool (take 50 (sort_descending total_loyalty_points (rows df)))
           \<and> map position allocs = [1..<Suc (length allocs)]"
proof -
  define top_50 where "top_50 = take 50 (sort_descending total_loyalty_points (rows df))"
  define col where "col = bonus_amount_column m pool top_50"
  define allocs where
    "allocs = map (\<lambda>(r, b). \<lparr>player = entry r, position = rank r, bonus_amount = b\<rparr>)
                (zip (assign_rank top_50) col)"
  have len: "length col = length (assign_rank top_50)"
    by (simp add: col_def length_bonus_amount_column length_assign_rank)
  have r: "bonus_allocation df pool m = Inr allocs"
    by (simp add: bonus_allocation_def nlargest_returns [OF assms] allocs_def col_def top_50_def)
  have b: "map bonus_amount allocs = col"
  proof -
    have "map bonus_amount allocs = map snd (zip (assign_rank top_50) col)"
      by (simp add: allocs_def case_prod_unfold)
    then show ?thesis using len by simp
  qed
  have p: "map position allocs = map rank (assign_rank top_50)"
  proof -
    have "map position allocs = map rank (map fst (zip (assign_rank top_50) col))"
      by (simp add: allocs_def case_prod_unfold)
    then show ?thesis using len by simp
  qed
  have l: "length allocs = min 50 (length (rows df))"
    using len by (simp add: allocs_def length_assign_rank top_50_def length_sort_descending)
  have l2: "length allocs = length top_50"
    using len by (simp add: allocs_def length_assign_rank)
  show ?thesis
    using r b p l l2 by (simp add: col_def top_50_def map_rank_assign_rank del: upt_Suc)
qed

lemma foldl_fadd_Num: "foldl fadd (Num a) (map Num xs) = Num (a + sum_list xs)"
  by (induction xs arbitrary: a) (simp_all add: ac_simps)

lemma series_sum_Num: "series_sum (map Num xs) = Num (sum_list xs)"
proof -
  have "filter (\<lambda>x. x \<noteq> NaN) (map Num xs) = map Num xs"
    by (induction xs) simp_all
  then show ?thesis
    by (simp add: series_sum_def foldl_fadd_Num)
qed

lemma sum_list_scaled:
  fixes f :: "'a \<Rightarrow> rat"
  shows "sum_list (map (\<lambda>r. f r / t * p) xs) = sum_list (map f xs) / t * p"
  by (induction xs) (simp_all add: add_divide_distrib distrib_right)

lemma sum_list_pos:
  fixes f :: "'a \<Rightarrow> rat"
  assumes "\<forall>x \<in> set xs. 0 \<le> f x" and "y \<in> set xs" and "0 < f y"
  shows "0 < sum_list (map f xs)"
  using assms
proof (induction xs)
  case Nil
  then show ?case by simp
next
  case (Cons x xs)
  have rest: "0 \<le> sum_list (map f xs)"
    by (rule sum_list_nonneg) (use Cons.prems in auto)
  show ?case
  proof (cases "y = x")
    case True
    then show ?thesis using Cons.prems rest by simp
  next
    case False
    then have "0 < sum_list (map f xs)"
      using Cons by simp
    moreover have "0 \<le> f x" using Cons.prems by simp
    ultimately show ?thesis by simp
  qed
qed

lemma top_has_positive:
  fixes f :: "'a \<Rightarrow> rat"
  assumes "x \<in> set xs" and "0 < f x" and "0 < n"
  shows "\<exists>y \<in> set (take n (sort_descending f xs)). 0 < f y"
proof -
  define ys where "ys = sort_descending f xs"
  have s: "sorted_wrt (\<lambda>a b. f b \<le> f a) ys"
    unfolding ys_def by (rule sorted_sort_descending)
  have x: "x \<in> set ys"
    using assms(1) by (simp add: ys_def set_sort_descending)
  then obtain y rest where ys: "ys = y # rest"
    by (cases ys) auto
  have "f x \<le> f y"
    using s x unfolding ys by auto
  then have "0 < f y" using assms(2) by simp
  moreover have "y \<in> set (take n ys)"
    using assms(3) unfolding ys by (cases n) simp_all
  ultimately show ?thesis unfolding ys_def by blast
qed


lemma proportional_total:
  assumes nonneg: "\<forall>r \<in> set xs. 0 \<le> total_loyalty_points r"
    and pos: "\<exists>r \<in> set xs. 0 < total_loyalty_points r"
  shows "series_sum (bonus_amount_column Proportional pool
           (take 50 (sort_descending total_loyalty_points xs))) = Num pool"
proof -
  define top_50 where "top_50 = take 50 (sort_descending total_loyalty_points xs)"
  define total where "total = sum_list (map total_loyalty_points top_50)"
  obtain x where x: "x \<in> set xs" "0 < total_loyalty_points x"
    using pos by blast
  obtain y where y: "y \<in> set top_50" "0 < total_loyalty_points y"
    using top_has_positive [where f = total_loyalty_points and n = 50, OF x(1) x(2)]
    unfolding top_50_def by auto
  have "\<forall>r \<in> set top_50. 0 \<le> total_loyalty_points r"
    using nonneg unfolding top_50_def
    by (metis in_set_takeD set_sort_descending)
  then have "0 < total"
    unfolding total_def using y by (rule sum_list_pos)
  then have nz: "total \<noteq> 0" by simp
  have "bonus_amount_column Proportional pool top_50
          = map Num (map (\<lambda>r. total_loyalty_points r / total * pool) top_50)"
    using nz by (simp add: total_def [symmetric] fdiv_def)
  then have "series_sum (bonus_amount_column Proportional pool top_50)
          = Num (sum_list (map (\<lambda>r. total_loyalty_points r / total * pool) top_50))"
    by (simp only: series_sum_Num)
  also have "\<dots> = Num (total / total * pool)"
    by (simp only: sum_list_scaled total_def)
  also have "\<dots> = Num pool"
    using nz by simp
  finally show ?thesis unfolding top_50_def .
qed

lemma equal_total:
  assumes "length top_50 = 50"
  shows "series_sum (bonus_amount_column Equal pool top_50) = Num pool"
proof -
  have "bonus_amount_column Equal pool top_50 = map Num (replicate 50 (pool / 50))"
    using assms by simp
  then have "series_sum (bonus_amount_column Equal pool top_50)
               = Num (sum_list (replicate 50 (pool / 50)))"
    by (simp only: series_sum_Num)
  then show ?thesis
    by (simp add: sum_list_replicate)
qed

lemma tiered_column_50:
  assumes "length top_50 = 50"
  shows "bonus_amount_column Tiered pool top_50
           = map Num (replicate 10 (pool * 0.5 / 10) @ replicate 20 (pool * 0.35 / 20)
                      @ replicate 20 (pool * 0.15 / 20))"
proof (rule nth_equalityI)
  show "length (bonus_amount_column Tiered pool top_50)
          = length (map Num (replicate 10 (pool * 0.5 / 10) @ replicate 20 (pool * 0.35 / 20)
                      @ replicate 20 (pool * 0.15 / 20)))"
    using assms by (simp only: length_bonus_amount_column) simp
next
  fix i assume "i < length (bonus_amount_column Tiered pool top_50)"
  then have i: "i < 50"
    using assms by (simp only: length_bonus_amount_column)
  show "bonus_amount_column Tiered pool top_50 ! i
          = map Num (replicate 10 (pool * 0.5 / 10) @ replicate 20 (pool * 0.35 / 20)
                      @ replicate 20 (pool * 0.15 / 20)) ! i"
    using i assms
    by (auto simp add: Let_def nth_loc_assign length_loc_assign nth_append)
qed

lemma tiered_total:
  assumes "length top_50 = 50"
  shows "series_sum (bonus_amount_column Tiered pool top_50) = Num pool"
proof -
  have "series_sum (bonus_amount_column Tiered pool top_50)
          = Num (sum_list (replicate 10 (pool * 0.5 / 10) @ replicate 20 (pool * 0.35 / 20)
                      @ replicate 20 (pool * 0.15 / 20)))"
    by (simp only: tiered_column_50 [OF assms] series_sum_Num)
  then show ?thesis
    by (simp add: sum_list_replicate)
qed


lemmas scoring_eval =
  monthly_result_def calculate_player_loyalty_points_def self_weights_def
  select_def column_sum_def wrap64_def integer_table_def
  single_table_def idle_table_def tied_table_def
  loyalty_calc.defs loyalty_row.defs p001_def p003_def p004_def p005_def

lemmas allocation_eval =
  bonus_allocation_def nlargest_def DataFrame_def monthly_keys_def sort_descending_def
  assign_rank_def loc_assign_def total_allocated_def series_sum_def fdiv_def

text \<open>
  The concrete frames are what the monthly scorer returns: for a single player whatever
  the sort, for the two tied players in the order of the stable sort.
\<close>

lemma sorted_singleton:
  assumes "sorts_descending numpy_sort key"
  shows "numpy_sort key [x] = [x]"
proof -
  have "mset (numpy_sort key [x]) = mset [x]"
    using assms by (simp add: sorts_descending_def)
  then show ?thesis
    by (metis mset_single_iff_right mset.simps(1) mset.simps(2) add_mset_eq_single)
qed

lemma scored_fixtures:
  assumes "sorts_descending numpy_sort total_loyalty_points"
  shows "calculate_monthly_loyalty_points numpy_sort single_table = Inr single_results
       \<and> calculate_monthly_loyalty_points numpy_sort idle_table = Inr idle_results
       \<and> calculate_monthly_loyalty_points sort_descending tied_table = Inr tied_results"
proof -
  have one: "numpy_sort total_loyalty_points [x] = [x]" for x
    using assms by (rule sorted_singleton)
  have "calculate_monthly_loyalty_points sort_descending tied_table = Inr tied_results"
    by (simp add: tied_results_def calculate_monthly_loyalty_points_def sort_values_def
        unique_def DataFrame_def monthly_keys_def sort_descending_def scoring_eval)
  moreover have "calculate_monthly_loyalty_points numpy_sort single_table = Inr single_results"
    by (simp add: single_results_def calculate_monthly_loyalty_points_def sort_values_def
        unique_def DataFrame_def monthly_keys_def one single_table_def integer_table_def
        p001_def)
  moreover have "calculate_monthly_loyalty_points numpy_sort idle_table = Inr idle_results"
    by (simp add: idle_results_def calculate_monthly_loyalty_points_def sort_values_def
        unique_def DataFrame_def monthly_keys_def one idle_table_def integer_table_def
        p003_def)
  ultimately show ?thesis by simp
qed

text \<open>
  C1 as stated: for every non-empty ranked set the bonus amounts sum to the pool under
  each policy. Two players ranked with a pool of 50000 receive 1000 each under the Equal
  policy, 2000 in total, and 2500 each under the Tiered policy, 5000 in total.
\<close>

theorem pool_total_counterexample:
  "bonus_allocation tied_results 50000 Equal
     = Inr [\<lparr>player = monthly_result tied_table ''P004'', position = 1, bonus_amount = Num 1000\<rparr>,
            \<lparr>player = monthly_result tied_table ''P005'', position = 2, bonus_amount = Num 1000\<rparr>]
   \<and> total_allocated
        [\<lparr>player = monthly_result tied_table ''P004'', position = 1, bonus_amount = Num 1000\<rparr>,
         \<lparr>player = monthly_result tied_table ''P005'', position = 2, bonus_amount = Num 1000\<rparr>]
       = Num 2000
   \<and> \<not> within_tolerance (Num 2000) 50000
   \<and> bonus_allocation tied_results 50000 Tiered
     = Inr [\<lparr>player = monthly_result tied_table ''P004'', position = 1, bonus_amount = Num 2500\<rparr>,
            \<lparr>player = monthly_result tied_table ''P005'', position = 2, bonus_amount = Num 2500\<rparr>]
   \<and> total_allocated
        [\<lparr>player = monthly_result tied_table ''P004'', position = 1, bonus_amount = Num 2500\<rparr>,
         \<lparr>player = monthly_result tied_table ''P005'', position = 2, bonus_amount = Num 2500\<rparr>]
       = Num 5000
   \<and> \<not> within_tolerance (Num 5000) 50000"
  by (simp add: tied_results_def allocation_eval scoring_eval)

text \<open>
  C1, amended. The bonus amounts sum to the pool (exactly in this model, so within the
  relative tolerance of \<open>10\<^sup>-\<^sup>6\<close>): under the Proportional policy for every set of
  non-negative scores that are not all zero, whatever its size; under the Equal and the
  Tiered policy when at least 50 players are scored, so that 50 are ranked.
\<close>

theorem pool_total:
  assumes "''total_loyalty_points'' \<in> set (columns df)"
    and "m = Proportional \<longrightarrow>
           (\<forall>r \<in> set (rows df). 0 \<le> total_loyalty_points r)
           \<and> (\<exists>r \<in> set (rows df). 0 < total_loyalty_points r)"
    and "m \<noteq> Proportional \<longrightarrow> 50 \<le> length (rows df)"
  shows "\<exists>allocs. bonus_allocation df pool m = Inr allocs
           \<and> total_allocated allocs = Num pool
           \<and> within_tolerance (total_allocated allocs) pool"
proof -
  define top_50 where "top_50 = take 50 (sort_descending total_loyalty_points (rows df))"
  obtain allocs where r: "bonus_allocation df pool m = Inr allocs"
    and b: "map bonus_amount allocs = bonus_amount_column m pool top_50"
    using bonus_allocation_returns [OF assms(1), of pool m] unfolding top_50_def by blast
  have "series_sum (bonus_amount_column m pool top_50) = Num pool"
  proof (cases m)
    case Proportional
    then show ?thesis
      using assms(2) proportional_total [of "rows df" pool] by (simp only: top_50_def) blast
  next
    case Equal
    then have "length top_50 = 50"
      using assms(3) by (simp add: top_50_def length_sort_descending)
    then show ?thesis
      unfolding Equal by (rule equal_total)
  next
    case Tiered
    then have "length top_50 = 50"
      using assms(3) by (simp add: top_50_def length_sort_descending)
    then show ?thesis
      unfolding Tiered by (rule tiered_total)
  qed
  then have "total_allocated allocs = Num pool"
    using b by (simp only: total_allocated_def)
  then show ?thesis
    using r by simp
qed

theorem pool_total_witness:
  "(\<exists>allocs. bonus_allocation single_results 50000 Proportional = Inr allocs
        \<and> total_allocated allocs = Num 50000)
   \<and> (\<exists>allocs. bonus_allocation fifty_results 50000 Equal = Inr allocs
        \<and> total_allocated allocs = Num 50000)
   \<and> (\<exists>allocs. bonus_allocation fifty_results 100000 Tiered = Inr allocs
        \<and> total_allocated allocs = Num 100000)"
proof -
  have c1: "''total_loyalty_points'' \<in> set (columns single_results)"
    by (simp add: single_results_def DataFrame_def monthly_keys_def)
  have p1: "Proportional = Proportional \<longrightarrow>
           (\<forall>r \<in> set (rows single_results). 0 \<le> total_loyalty_points r)
           \<and> (\<exists>r \<in> set (rows single_results). 0 < total_loyalty_points r)"
    by (simp add: single_results_def DataFrame_def scoring_eval)
  have c50: "''total_loyalty_points'' \<in> set (columns fifty_results)"
    by (simp add: fifty_results_def DataFrame_def monthly_keys_def)
  have l50: "50 \<le> length (rows fifty_results)"
    by (simp add: fifty_results_def DataFrame_def)
  show ?thesis
    using pool_total [OF c1 p1, of 50000]
      pool_total [OF c50, of Equal 50000] pool_total [OF c50, of Tiered 100000] l50
    by blast
qed


text \<open>
  C4 as stated: under the Equal policy every member receives \<open>pool / N\<close>, also for
  \<open>N < 50\<close>. A single ranked player with a pool of 50000 receives 1000, not 50000.
\<close>

theorem equal_share_counterexample:
  "bonus_allocation single_results 50000 Equal
     = Inr [\<lparr>player = monthly_result single_table ''P001'', position = 1, bonus_amount = Num 1000\<rparr>]
   \<and> length (rows single_results) = 1
   \<and> Num 1000 \<noteq> Num (50000 / rat_of_nat (length (rows single_results)))"
  by (simp add: single_results_def allocation_eval scoring_eval)

text \<open>
  C4, amended. Under the Equal policy every ranked member receives \<open>pool / 50\<close>,
  independent of the scores and of the number \<open>N\<close> of ranked players (at most 50); this
  is \<open>pool / N\<close> when 50 players are ranked. With a pool of 50000 every bonus amount is
  1000.
\<close>

theorem equal_share:
  assumes "''total_loyalty_points'' \<in> set (columns df)"
  shows "\<exists>allocs. bonus_allocation df pool Equal = Inr allocs
           \<and> length allocs = min 50 (length (rows df))
           \<and> (\<forall>a \<in> set allocs. bonus_amount a = Num (pool / 50))
           \<and> (pool = 50000 \<longrightarrow> (\<forall>a \<in> set allocs. bonus_amount a = Num 1000))
           \<and> (50 \<le> length (rows df) \<longrightarrow>
                (\<forall>a \<in> set allocs. bonus_amount a = Num (pool / rat_of_nat (length allocs))))"
proof -
  obtain allocs where r: "bonus_allocation df pool Equal = Inr allocs"
    and l: "length allocs = min 50 (length (rows df))"
    and b: "map bonus_amount allocs
              = bonus_amount_column Equal pool
                  (take 50 (sort_descending total_loyalty_points (rows df)))"
    using bonus_allocation_returns [OF assms, of pool Equal] by blast
  have "set (map bonus_amount allocs) \<subseteq> {Num (pool / 50)}"
    unfolding b by (simp add: set_replicate_conv_if)
  then have each: "\<forall>a \<in> set allocs. bonus_amount a = Num (pool / 50)"
    by auto
  show ?thesis
    using r l each by auto
qed

theorem equal_share_witness:
  "''total_loyalty_points'' \<in> set (columns fifty_results)
   \<and> (\<exists>allocs. bonus_allocation fifty_results 50000 Equal = Inr allocs
          \<and> length allocs = 50
          \<and> list_all (\<lambda>a. bonus_amount a = Num 1000) allocs)"
proof -
  have c50: "''total_loyalty_points'' \<in> set (columns fifty_results)"
    by (simp add: fifty_results_def DataFrame_def monthly_keys_def)
  have l50: "length (rows fifty_results) = 50"
    by (simp add: fifty_results_def DataFrame_def)
  show ?thesis
    using c50 equal_share [OF c50, of 50000] unfolding l50 list_all_iff by auto
qed

lemma proportional_all_zero:
  assumes "''total_loyalty_points'' \<in> set (columns df)"
    and "\<forall>r \<in> set (rows df). total_loyalty_points r = 0"
  shows "\<exists>allocs. bonus_allocation df pool Proportional = Inr allocs
           \<and> length allocs = min 50 (length (rows df))
           \<and> (\<forall>a \<in> set allocs. bonus_amount a = NaN)"
proof -
  define top_50 where "top_50 = take 50 (sort_descending total_loyalty_points (rows df))"
  obtain allocs where r: "bonus_allocation df pool Proportional = Inr allocs"
    and l: "length allocs = min 50 (length (rows df))"
    and b: "map bonus_amount allocs = bonus_amount_column Proportional pool top_50"
    using bonus_allocation_returns [OF assms(1), of pool Proportional]
    unfolding top_50_def by blast
  have z: "\<forall>r \<in> set top_50. total_loyalty_points r = 0"
    using assms(2) unfolding top_50_def by (metis in_set_takeD set_sort_descending)
  then have "sum_list (map total_loyalty_points top_50) = 0"
    by (induction top_50) simp_all
  then have "set (bonus_amount_column Proportional pool top_50) \<subseteq> {NaN}"
    using z by (auto simp: fdiv_def)
  then have "\<forall>a \<in> set allocs. bonus_amount a = NaN"
    unfolding b [symmetric] by auto
  then show ?thesis
    using r l by blast
qed

text \<open>
  C3. When every ranked player has zero points the Proportional policy should fall back
  to the Equal distribution. The page has no such guard: for the single player without
  activity, scored to 0 points by the monthly scorer, the Proportional bonus is
  \<^verbatim>\<open>0.0 / 0.0 * 50000 = nan\<close>, where the Equal branch assigns 1000. By
  \<open>proportional_all_zero\<close> the same holds for every set whose scores are all zero.
\<close>

theorem proportional_zero_points_nan:
  "calculate_monthly_loyalty_points sort_descending idle_table = Inr idle_results
   \<and> calculate_monthly_loyalty_points sort_reversed idle_table = Inr idle_results
   \<and> total_loyalty_points (monthly_result idle_table ''P003'') = 0
   \<and> bonus_allocation idle_results 50000 Proportional
       = Inr [\<lparr>player = monthly_result idle_table ''P003'', position = 1, bonus_amount = NaN\<rparr>]
   \<and> bonus_allocation idle_results 50000 Equal
       = Inr [\<lparr>player = monthly_result idle_table ''P003'', position = 1, bonus_amount = Num 1000\<rparr>]"
  by (simp add: idle_results_def calculate_monthly_loyalty_points_def sort_values_def unique_def
      sort_reversed_def allocation_eval scoring_eval)

end
